theory Spec2Isabelle
  imports Main "HOL-Library.Product_Lexorder" "HOL-Library.AList" "HOL-Library.Multiset"
begin

section \<open>Conventions\<close>

text \<open>
  A Python \<open>str\<close> is modelled as the list of its code points, so that \<open>length\<close> is
  Python's \<open>len\<close>. An \<open>Optional[str]\<close> is an option; Python's truth test on it
  (\<open>if message_text\<close>) holds for a present, non-empty string only. Python's \<open>int\<close> is
  unbounded and is modelled by \<open>int\<close>. Instants (\<open>datetime\<close>) are integers, a count of
  microseconds.
\<close>

type_synonym py_str = "nat list"

definition ascii :: "string \<Rightarrow> py_str" where
  "ascii s = map of_char s"

definition truthy :: "py_str option \<Rightarrow> bool" where
  "truthy t = (case t of None \<Rightarrow> False | Some s \<Rightarrow> s \<noteq> [])"

section \<open>Scoring engine (utils.py)\<close>

definition SCORE_MENTION :: int where "SCORE_MENTION = 3"
definition SCORE_QUESTION :: int where "SCORE_QUESTION = 2"
definition SCORE_LONG_MESSAGE :: int where "SCORE_LONG_MESSAGE = 1"
definition SCORE_HIGH_PRIORITY_USER :: int where "SCORE_HIGH_PRIORITY_USER = 2"
definition MIN_LONG_MESSAGE_LENGTH :: nat where "MIN_LONG_MESSAGE_LENGTH = 100"
definition AI_PRIORITY_SCORE_MIN :: int where "AI_PRIORITY_SCORE_MIN = 0"
definition AI_PRIORITY_SCORE_MAX :: int where "AI_PRIORITY_SCORE_MAX = 10"

text \<open>
  \<open>calculate_priority_score\<close>: four independent \<open>if\<close> statements, each adding its weight
  to a running \<open>score\<close> that starts at 0.
\<close>

definition calculate_priority_score :: "py_str option \<Rightarrow> bool \<Rightarrow> bool \<Rightarrow> bool \<Rightarrow> int" where
  "calculate_priority_score message_text has_mention is_question is_high_priority_user =
     (let score = 0;
          score = (if has_mention then score + SCORE_MENTION else score);
          score = (if is_question then score + SCORE_QUESTION else score);
          score = (if truthy message_text \<and> length (the message_text) > MIN_LONG_MESSAGE_LENGTH
                   then score + SCORE_LONG_MESSAGE else score);
          score = (if is_high_priority_user then score + SCORE_HIGH_PRIORITY_USER else score)
      in score)"


section \<open>Data model (models.py)\<close>

text \<open>
  The \<open>chat_type\<close> column holds one of the strings that \<open>get_chat_type\<close> returns:
  'private', 'group', 'supergroup', 'gigagroup', 'channel' or 'unknown'.
\<close>

datatype chat_type = Private | Group | Supergroup | Gigagroup | Channel | Unknown

text \<open>
  A row of table \<open>messages\<close>. The primary key \<open>id\<close> is called \<open>msg_id\<close> here; the
  column \<open>created_at\<close>, which no operation below reads, is left out. The four tracking
  columns at the end default to False and NULL on insert.
\<close>

record message =
  msg_id :: int
  telegram_message_id :: int
  chat_id :: int
  chat_title :: "py_str option"
  chat_type :: chat_type
  user_id :: int
  user_name :: "py_str option"
  message_text :: "py_str option"
  timestamp :: int
  has_mention :: bool
  is_question :: bool
  message_length :: int
  topic_summary :: "py_str option"
  priority_score :: int
  label :: "py_str option"
  labeled_at :: "int option"
  included_in_summary :: bool
  summary_sent_at :: "int option"
  warning_sent :: bool
  warning_sent_at :: "int option"

text \<open>The columns of \<open>user_preferences\<close> that the triage pipeline reads.\<close>

record user_preferences =
  pref_min_priority_score :: "int option"
  pref_warning_threshold_score :: "int option"
  pref_ignore_large_groups :: bool
  pref_max_group_size :: int
  pref_ignore_muted_chats :: bool

text \<open>
  The static configuration (config.py): \<open>config.scheduler\<close>, \<open>config.filter\<close>,
  \<open>config.ai.enabled\<close>, \<open>config.telegram.client_user_id\<close> and the bot's own user id,
  which \<open>_get_bot_user_id\<close> reads off the bot token.
\<close>

record config =
  cfg_min_priority_score :: int
  cfg_warning_threshold_score :: int
  cfg_ignore_large_groups :: bool
  cfg_max_group_size :: int
  cfg_ignore_muted_chats :: bool
  cfg_ai_enabled :: bool
  cfg_client_user_id :: int
  cfg_bot_user_id :: int

text \<open>
  The outcome of one storage transaction (\<open>async with get_session()\<close>): it commits, or it
  raises \<open>OperationalError\<close> (the database is locked), or it raises something else. In the
  last two cases \<open>get_session\<close> rolls back, so the table is as before.
\<close>

datatype db_result = DbOk | DbLocked | DbFailed

text \<open>
  Reading the preferences row of the owning user: \<open>None\<close> when the read raised,
  \<open>Some None\<close> when there is no row, \<open>Some (Some p)\<close> for the row \<open>p\<close>.
\<close>

type_synonym prefs_read = "user_preferences option option"

section \<open>Filter cache (userbot.py)\<close>

text \<open>
  The module globals \<open>_muted_chats\<close> (a set of chat ids) and \<open>_group_sizes\<close> (a dict from
  chat id to participant count, here an association list with one pair per key).
\<close>

record filter_cache =
  muted_chats :: "int set"
  group_sizes :: "(int \<times> int) list"

definition get_muted_chats :: "filter_cache \<Rightarrow> int set" where
  "get_muted_chats cache = muted_chats cache"

definition add_muted_chat :: "int \<Rightarrow> filter_cache \<Rightarrow> filter_cache" where
  "add_muted_chat cid cache = cache\<lparr>muted_chats := insert cid (muted_chats cache)\<rparr>"

definition remove_muted_chat :: "int \<Rightarrow> filter_cache \<Rightarrow> filter_cache" where
  "remove_muted_chat cid cache = cache\<lparr>muted_chats := muted_chats cache - {cid}\<rparr>"

definition get_large_group_ids :: "filter_cache \<Rightarrow> int \<Rightarrow> int set" where
  "get_large_group_ids cache max_size =
     set (map fst (filter (\<lambda>(cid, size). size > max_size) (group_sizes cache)))"

section \<open>Digest scheduler (scheduler.py)\<close>

text \<open>One hour in microseconds: \<open>timedelta(hours=1)\<close>.\<close>

definition HOUR :: int where "HOUR = 3600000000"

text \<open>
  What \<open>get_unlabeled_messages\<close> reads besides its arguments and the table: the
  configuration, the filter cache, the clock at the first and at the second call of
  \<open>datetime.utcnow()\<close>, the outcome of the preferences read and the outcome of the
  transaction that selects and marks.
\<close>

record digest_env =
  d_config :: config
  d_cache :: filter_cache
  d_now :: int
  d_prefs :: prefs_read
  d_mark_time :: int
  d_storage :: db_result

text \<open>Lines 56 to 68: the excluded chat ids, from the two toggles of the configuration.\<close>

definition excluded_chat_ids :: "config \<Rightarrow> filter_cache \<Rightarrow> int set" where
  "excluded_chat_ids cfg cache =
     (let excluded = {};
          excluded = (if cfg_ignore_muted_chats cfg
                      then excluded \<union> get_muted_chats cache else excluded);
          excluded = (if cfg_ignore_large_groups cfg
                      then excluded \<union> get_large_group_ids cache (cfg_max_group_size cfg)
                      else excluded)
      in excluded)"

text \<open>
  Lines 49 and 71 to 84: the minimum score is the configured default unless the
  preferences row exists and holds a value; a failed read keeps the default.
\<close>

definition min_priority_of :: "config \<Rightarrow> prefs_read \<Rightarrow> int" where
  "min_priority_of cfg pr =
     (case pr of
        Some (Some user_prefs) \<Rightarrow>
          (case pref_min_priority_score user_prefs of
             Some v \<Rightarrow> v
           | None \<Rightarrow> cfg_min_priority_score cfg)
      | _ \<Rightarrow> cfg_min_priority_score cfg)"

text \<open>
  \<open>ORDER BY priority_score DESC, timestamp DESC\<close>: ascending order of this key. Rows
  equal in both columns come in an order that SQL leaves to the engine; the model keeps
  them in table order (\<open>sort_key\<close> is stable).
\<close>

definition digest_key :: "message \<Rightarrow> int \<times> int" where
  "digest_key m = (- priority_score m, - timestamp m)"

text \<open>Lines 100 to 117: the query. \<open>limit\<close> is a count, at least 1 by config.py.\<close>

definition select_unlabeled :: "message list \<Rightarrow> int \<Rightarrow> int \<Rightarrow> int set \<Rightarrow> nat \<Rightarrow> message list" where
  "select_unlabeled db cutoff_time min_priority excluded limit =
     take limit (sort_key digest_key
       (filter (\<lambda>m. timestamp m \<ge> cutoff_time
                   \<and> label m = None
                   \<and> included_in_summary m = False
                   \<and> priority_score m \<ge> min_priority
                   \<and> (if excluded \<noteq> {} then chat_id m \<notin> excluded else True)) db))"

text \<open>Lines 122 to 129: \<open>UPDATE messages SET ... WHERE id IN message_ids\<close>.\<close>

definition mark_included :: "int list \<Rightarrow> int \<Rightarrow> message list \<Rightarrow> message list" where
  "mark_included message_ids now db =
     map (\<lambda>m. if msg_id m \<in> set message_ids
              then m\<lparr>included_in_summary := True, summary_sent_at := Some now\<rparr>
              else m) db"

text \<open>
  \<open>get_unlabeled_messages\<close> returns the new table and the selected rows. The rows are
  the objects of the session, which the \<open>UPDATE\<close> of lines 122 to 129 synchronises with
  the values it writes (the session is made with \<open>expire_on_commit=False\<close>), so they are
  returned marked. When the transaction raises, the exception reaches the caller and the
  table is unchanged: \<open>None\<close>.
\<close>

definition get_unlabeled_messages ::
  "digest_env \<Rightarrow> int \<Rightarrow> nat \<Rightarrow> message list \<Rightarrow> (message list \<times> message list) option" where
  "get_unlabeled_messages env hours limit db =
     (let cutoff_time = d_now env - hours * HOUR;
          min_priority = min_priority_of (d_config env) (d_prefs env);
          excluded = excluded_chat_ids (d_config env) (d_cache env)
      in case d_storage env of
           DbOk \<Rightarrow>
             (let messages = select_unlabeled db cutoff_time min_priority excluded limit
              in if messages \<noteq> []
                 then (let message_ids = map msg_id messages
                       in Some (mark_included message_ids (d_mark_time env) db,
                                mark_included message_ids (d_mark_time env) messages))
                 else Some (db, messages))
         | _ \<Rightarrow> None)"

section \<open>Alert dispatcher (userbot.py, send_warning_for_message)\<close>

definition set_warning_sent :: "int \<Rightarrow> int \<Rightarrow> message list \<Rightarrow> message list" where
  "set_warning_sent message_id now db =
     map (\<lambda>m. if msg_id m = message_id
              then m\<lparr>warning_sent := True, warning_sent_at := Some now\<rparr>
              else m) db"

text \<open>
  Lines 195 to 224, the loop \<open>for attempt in range(max_retries)\<close>: a committed update
  leaves the loop; a locked database is retried while \<open>attempt < max_retries - 1\<close> and
  re-raised on the last attempt; any other exception leaves at once. Every exception ends
  in the handler of line 237, which logs, so the table is then unchanged.
\<close>

fun warning_attempts ::
  "nat list \<Rightarrow> nat \<Rightarrow> (nat \<Rightarrow> db_result) \<Rightarrow> int \<Rightarrow> int \<Rightarrow> message list \<Rightarrow> message list" where
  "warning_attempts [] max_retries db_at message_id now db = db"
| "warning_attempts (attempt # rest) max_retries db_at message_id now db =
     (case db_at attempt of
        DbOk \<Rightarrow> set_warning_sent message_id now db
      | DbLocked \<Rightarrow>
          (if attempt < max_retries - 1
           then warning_attempts rest max_retries db_at message_id now db
           else db)
      | DbFailed \<Rightarrow> db)"

text \<open>
  What the dispatcher meets: whether the bot application is there, whether
  \<open>bot.send_message\<close> returns, the outcome of each attempt to mark the row, the clock.
\<close>

record warning_env =
  w_bot_available :: bool
  w_send_ok :: bool
  w_db_at :: "nat \<Rightarrow> db_result"
  w_now :: int

definition send_warning_for_message :: "warning_env \<Rightarrow> int \<Rightarrow> message list \<Rightarrow> message list" where
  "send_warning_for_message env message_id db =
     (if \<not> w_bot_available env then db
      else if \<not> w_send_ok env then db
      else (let max_retries = 3
            in warning_attempts [0..<max_retries] max_retries (w_db_at env) message_id (w_now env) db))"

section \<open>Python runtime\<close>

text \<open>
  The tables and builtins of the Python runtime that the code calls and that are not part
  of the repository are parameters: the regular-expression classes \<open>\w\<close> and \<open>\d\<close>,
  \<open>str.lower\<close>, \<open>str.strip\<close>, and \<open>int\<close> applied to a string, which is \<open>None\<close> where
  Python raises \<open>ValueError\<close>. Every theorem below holds for all of them.
\<close>

record py_runtime =
  re_word :: "nat \<Rightarrow> bool"
  re_digit :: "nat \<Rightarrow> bool"
  py_lower :: "py_str \<Rightarrow> py_str"
  py_strip :: "py_str \<Rightarrow> py_str"
  py_int :: "py_str \<Rightarrow> int option"

definition startswith :: "py_str \<Rightarrow> py_str \<Rightarrow> bool" where
  "startswith s p = (take (length p) s = p)"

definition endswith :: "py_str \<Rightarrow> py_str \<Rightarrow> bool" where
  "endswith s p = (length p \<le> length s \<and> drop (length s - length p) s = p)"

text \<open>\<open>p in s\<close> on strings: \<open>p\<close> occurs in \<open>s\<close> as a contiguous piece.\<close>

fun contains :: "py_str \<Rightarrow> py_str \<Rightarrow> bool" where
  "contains [] p = (p = [])"
| "contains (c # s) p = (startswith (c # s) p \<or> contains s p)"

text \<open>\<open>s.split(sep)\<close> for a separator of one character: never an empty list.\<close>

fun split_on :: "nat \<Rightarrow> py_str \<Rightarrow> py_str list" where
  "split_on sep [] = [[]]"
| "split_on sep (c # s) =
     (if c = sep then [] # split_on sep s
      else (case split_on sep s of
              [] \<Rightarrow> [[c]]
            | part # parts \<Rightarrow> (c # part) # parts))"

section \<open>Derived flags (utils.py)\<close>

text \<open>\<open>re.search(r"@\w+", text)\<close>: an at sign (code point 64) followed by a word character.\<close>

fun re_search_mention :: "(nat \<Rightarrow> bool) \<Rightarrow> py_str \<Rightarrow> bool" where
  "re_search_mention w [] = False"
| "re_search_mention w [c] = False"
| "re_search_mention w (c # d # s) = ((c = 64 \<and> w d) \<or> re_search_mention w (d # s))"

definition detect_mention :: "py_runtime \<Rightarrow> py_str option \<Rightarrow> py_str option \<Rightarrow> bool" where
  "detect_mention rt text username =
     (if \<not> truthy text then False
      else if truthy username
      then contains (py_lower rt (the text)) (64 # the username)
           \<or> re_search_mention (re_word rt) (the text)
      else re_search_mention (re_word rt) (the text))"

definition question_starters :: "py_str list" where
  "question_starters =
     [ascii ''what'', ascii ''when'', ascii ''where'', ascii ''why'', ascii ''how'',
      ascii ''who'', ascii ''which'',
      ascii ''is '', ascii ''are '', ascii ''do '', ascii ''does '', ascii ''can '',
      ascii ''could '', ascii ''would '', ascii ''will '',
      ascii ''should '', ascii ''have '', ascii ''has '', ascii ''did '',
      ascii ''que '', ascii ''qual '', ascii ''quem '', ascii ''quando '', ascii ''onde '',
      ascii ''como '', ascii ''por que'',
      ascii ''voc'' @ [234, 32], ascii ''voc'' @ [234, 115, 32]]"

definition detect_question :: "py_runtime \<Rightarrow> py_str option \<Rightarrow> bool" where
  "detect_question rt text =
     (if \<not> truthy text then False
      else (let text = py_strip rt (the text)
            in if endswith text (ascii ''?'') then True
               else (let text_lower = py_lower rt text
                     in list_ex (\<lambda>starter. startswith text_lower starter) question_starters)))"

section \<open>Oracle-backed scoring (utils.py)\<close>

text \<open>
  What the attempt to ask the scoring oracle ends in: \<open>import ollama\<close> raises
  \<open>ImportError\<close>, \<open>import ollama\<close> raises another exception, the call exceeds its
  timeout, anything else is raised on the way (transport, server, response shape), or a
  reply text comes back.
\<close>

datatype oracle_outcome =
    OllamaNotInstalled
  | OllamaImportRaises
  | OracleTimeout
  | OracleFailed
  | OracleReply py_str

text \<open>
  The exception that leaves the two oracle functions. \<open>import asyncio\<close> stands inside
  the \<open>try\<close>, after \<open>import ollama\<close>, so \<open>asyncio\<close> is a local name of the function;
  when \<open>import ollama\<close> raises anything but \<open>ImportError\<close>, the clause
  \<open>except asyncio.TimeoutError\<close> is evaluated with that name unbound.
\<close>

datatype error = UnboundLocalError

text \<open>The first element of \<open>re.findall(r'\d+', result)\<close>, if there is one.\<close>

definition first_number :: "(nat \<Rightarrow> bool) \<Rightarrow> py_str \<Rightarrow> py_str option" where
  "first_number d result =
     (let rest = dropWhile (\<lambda>c. \<not> d c) result
      in if rest = [] then None else Some (takeWhile d rest))"

text \<open>
  \<open>calculate_ai_priority_score\<close>, without the arguments that only go into the prompt. An
  empty text is scored 0 without a call. Each \<open>except\<close> clause that is reached returns
  \<open>None\<close>; a number that \<open>int\<close> rejects is a \<open>ValueError\<close>, caught by the last clause.
\<close>

definition calculate_ai_priority_score ::
  "py_runtime \<Rightarrow> py_str option \<Rightarrow> oracle_outcome \<Rightarrow> error + int option" where
  "calculate_ai_priority_score rt text outcome =
     (if \<not> truthy text \<or> length (the text) < 1 then Inr (Some AI_PRIORITY_SCORE_MIN)
      else (case outcome of
              OllamaNotInstalled \<Rightarrow> Inr None
            | OllamaImportRaises \<Rightarrow> Inl UnboundLocalError
            | OracleTimeout \<Rightarrow> Inr None
            | OracleFailed \<Rightarrow> Inr None
            | OracleReply result \<Rightarrow>
                (case first_number (re_digit rt) result of
                   None \<Rightarrow> Inr None
                 | Some number \<Rightarrow>
                     (case py_int rt number of
                        None \<Rightarrow> Inr None
                      | Some score \<Rightarrow>
                          Inr (Some (max AI_PRIORITY_SCORE_MIN (min AI_PRIORITY_SCORE_MAX score)))))))"

definition MIN_TEXT_LENGTH_FOR_TOPIC :: nat where "MIN_TEXT_LENGTH_FOR_TOPIC = 10"

text \<open>
  What the attempt to ask the topic oracle ends in: \<open>import ollama\<close> raises an exception
  other than \<open>ImportError\<close>, or the function gives a summary, \<open>None\<close> on every failure
  that one of its \<open>except\<close> clauses catches.
\<close>

datatype topic_outcome = TopicImportRaises | TopicGives "py_str option"

text \<open>
  \<open>generate_topic_summary\<close>: no label for a short text, without a call; otherwise what
  the topic oracle ends in. The function has the same \<open>import\<close> lines inside its \<open>try\<close>
  as \<open>calculate_ai_priority_score\<close>.
\<close>

definition generate_topic_summary :: "py_str option \<Rightarrow> topic_outcome \<Rightarrow> error + py_str option" where
  "generate_topic_summary text outcome =
     (if \<not> truthy text \<or> length (the text) < MIN_TEXT_LENGTH_FOR_TOPIC then Inr None
      else (case outcome of
              TopicImportRaises \<Rightarrow> Inl UnboundLocalError
            | TopicGives summary \<Rightarrow> Inr summary))"

section \<open>Ingestion pipeline (userbot.py)\<close>

text \<open>The keyword arguments of \<open>save_message\<close>.\<close>

record save_args =
  a_telegram_message_id :: int
  a_chat_id :: int
  a_chat_title :: "py_str option"
  a_chat_type :: chat_type
  a_user_id :: int
  a_user_name :: "py_str option"
  a_message_text :: "py_str option"
  a_timestamp :: int
  a_client_username :: "py_str option"

text \<open>
  What \<open>save_message\<close> meets: configuration, runtime, the cache \<open>_high_priority_users\<close>,
  the outcome of the scoring oracle and of the topic oracle, the outcome of the insert,
  the read of the user's warning threshold, and the environment of the alert dispatcher.
\<close>

record save_env =
  s_config :: config
  s_runtime :: py_runtime
  s_high_priority_users :: "int set"
  s_oracle :: oracle_outcome
  s_topic :: topic_outcome
  s_insert :: db_result
  s_threshold_read :: prefs_read
  s_warning :: warning_env

text \<open>The key that the autoincrement column gives a new row: above every key in use.\<close>

definition fresh_id :: "message list \<Rightarrow> int" where
  "fresh_id db = fold max (map msg_id db) 0 + 1"

text \<open>
  Lines 544 to 572: the oracle's score when enabled and given, else the rule-based one;
  an exception of the oracle function passes through.
\<close>

definition score_message :: "save_env \<Rightarrow> save_args \<Rightarrow> error + int" where
  "score_message env args =
     (let has_mention = detect_mention (s_runtime env) (a_message_text args) (a_client_username args);
          is_question = detect_question (s_runtime env) (a_message_text args);
          is_high_priority = (a_user_id args \<in> s_high_priority_users env)
      in case (if cfg_ai_enabled (s_config env)
               then calculate_ai_priority_score (s_runtime env) (a_message_text args) (s_oracle env)
               else Inr None) of
           Inl e \<Rightarrow> Inl e
         | Inr None \<Rightarrow>
             Inr (calculate_priority_score (a_message_text args) has_mention is_question is_high_priority)
         | Inr (Some v) \<Rightarrow> Inr v)"

text \<open>Lines 605 to 620: the user's stored threshold if the read gives one, else the default.\<close>

definition warning_threshold_of :: "config \<Rightarrow> prefs_read \<Rightarrow> int" where
  "warning_threshold_of cfg pr =
     (case pr of
        Some (Some user_prefs) \<Rightarrow>
          (case pref_warning_threshold_score user_prefs of
             Some user_threshold \<Rightarrow> user_threshold
           | None \<Rightarrow> cfg_warning_threshold_score cfg)
      | _ \<Rightarrow> cfg_warning_threshold_score cfg)"

text \<open>
  \<open>save_message\<close>: the whole body is inside \<open>try\<close>, and the handler logs, so an
  exception of an oracle function or a failed insert leaves the table as it was and
  nothing reaches the caller.
\<close>

definition save_message :: "save_env \<Rightarrow> save_args \<Rightarrow> message list \<Rightarrow> message list" where
  "save_message env args db =
     (let has_mention = detect_mention (s_runtime env) (a_message_text args) (a_client_username args);
          is_question = detect_question (s_runtime env) (a_message_text args);
          message_length = (if truthy (a_message_text args)
                            then int (length (the (a_message_text args))) else 0)
      in case score_message env args of
           Inl e \<Rightarrow> db
         | Inr score \<Rightarrow>
      (case generate_topic_summary (a_message_text args) (s_topic env) of
           Inl e \<Rightarrow> db
         | Inr topic \<Rightarrow>
      (case s_insert env of
           DbOk \<Rightarrow>
             (let message_id = fresh_id db;
                  message = \<lparr>msg_id = message_id,
                             telegram_message_id = a_telegram_message_id args,
                             chat_id = a_chat_id args,
                             chat_title = a_chat_title args,
                             chat_type = a_chat_type args,
                             user_id = a_user_id args,
                             user_name = a_user_name args,
                             message_text = a_message_text args,
                             timestamp = a_timestamp args,
                             has_mention = has_mention,
                             is_question = is_question,
                             message_length = message_length,
                             topic_summary = topic,
                             priority_score = score,
                             label = None,
                             labeled_at = None,
                             included_in_summary = False,
                             summary_sent_at = None,
                             warning_sent = False,
                             warning_sent_at = None\<rparr>;
                  db = db @ [message];
                  warning_threshold = warning_threshold_of (s_config env) (s_threshold_read env)
              in if score \<ge> warning_threshold
                 then send_warning_for_message (s_warning env) message_id db
                 else db)
         | _ \<Rightarrow> db)))"

text \<open>
  The Telethon entities behind \<open>event.get_chat()\<close> and \<open>event.get_sender()\<close>: a
  \<open>User\<close> (id, first name, last name), a \<open>Chat\<close> (id, title), a \<open>Channel\<close> (id, title,
  and the flags gigagroup, megagroup, broadcast), or anything else.
\<close>

datatype entity =
    UserEntity int "py_str option" "py_str option"
  | ChatEntity int py_str
  | ChannelEntity int py_str bool bool bool
  | OtherEntity int

fun entity_id :: "entity \<Rightarrow> int" where
  "entity_id (UserEntity i _ _) = i"
| "entity_id (ChatEntity i _) = i"
| "entity_id (ChannelEntity i _ _ _ _) = i"
| "entity_id (OtherEntity i) = i"

fun get_chat_type :: "entity \<Rightarrow> chat_type" where
  "get_chat_type (UserEntity _ _ _) = Private"
| "get_chat_type (ChatEntity _ _) = Group"
| "get_chat_type (ChannelEntity _ _ gigagroup megagroup broadcast) =
     (if gigagroup then Gigagroup
      else if megagroup then Supergroup
      else if broadcast then Channel
      else Channel)"
| "get_chat_type (OtherEntity _) = Unknown"

record event =
  ev_message_id :: int
  ev_raw_text :: "py_str option"
  ev_date :: int
  ev_chat :: entity
  ev_sender :: "entity option"

text \<open>
  What the handler reads: configuration, filter cache, the closure variables
  \<open>client_user_id\<close> and \<open>client_username\<close> (absent until the client has connected), the
  read of the preferences row, the runtime.
\<close>

record ingest_env =
  i_config :: config
  i_cache :: filter_cache
  i_client_user_id :: "int option"
  i_client_username :: "py_str option"
  i_prefs :: prefs_read
  i_runtime :: py_runtime

text \<open>
  Every way \<open>handle_new_message\<close> ends: one of the five early returns, the call of
  \<open>save_message\<close> with its arguments, or an exception caught and logged at line 806.
\<close>

datatype ingest_result =
    SkippedOwnMessage
  | SkippedBotMessage
  | SkippedNoText
  | FilteredLargeGroup
  | FilteredMuted
  | Saved save_args
  | HandlerError

text \<open>\<open>str(x)\<close> inside an f-string, for an optional string.\<close>

definition fmt_opt :: "py_str option \<Rightarrow> py_str" where
  "fmt_opt x = (case x of None \<Rightarrow> ascii ''None'' | Some s \<Rightarrow> s)"

text \<open>
  Lines 768 to 804. Adding a last name to an absent first name raises \<open>TypeError\<close>, and
  so does reading \<open>sender.id\<close> of an absent sender.
\<close>

definition build_save_args :: "ingest_env \<Rightarrow> event \<Rightarrow> chat_type \<Rightarrow> ingest_result" where
  "build_save_args env ev ctype =
     (let chat = ev_chat ev;
          sender = ev_sender ev;
          named = (case sender of
                     Some (UserEntity sid first_name last_name) \<Rightarrow>
                       (if truthy last_name
                        then (case first_name of
                                None \<Rightarrow> None
                              | Some f \<Rightarrow> Some (Some (f @ ascii '' '' @ the last_name), sid))
                        else Some (first_name, sid))
                   | Some other \<Rightarrow> Some (None, entity_id other)
                   | None \<Rightarrow> Some (None, 0))
      in case named of
           None \<Rightarrow> HandlerError
         | Some (sender_name, sender_id) \<Rightarrow>
             (let chat_title =
                    (case chat of
                       ChatEntity _ title \<Rightarrow> Some title
                     | ChannelEntity _ title _ _ _ \<Rightarrow> Some title
                     | UserEntity _ first_name last_name \<Rightarrow>
                         Some (py_strip (i_runtime env)
                                 (fmt_opt first_name @ ascii '' ''
                                  @ (if truthy last_name then the last_name else [])))
                     | OtherEntity _ \<Rightarrow> None);
                  actual_chat_id = (if ctype = Private then sender_id else entity_id chat)
              in Saved \<lparr>a_telegram_message_id = ev_message_id ev,
                        a_chat_id = actual_chat_id,
                        a_chat_title = chat_title,
                        a_chat_type = ctype,
                        a_user_id = sender_id,
                        a_user_name = sender_name,
                        a_message_text = ev_raw_text ev,
                        a_timestamp = ev_date ev,
                        a_client_username = i_client_username env\<rparr>))"

text \<open>Lines 744 to 765: the muted-chat gate, then the rest of the handler.\<close>

definition mute_gate :: "ingest_env \<Rightarrow> event \<Rightarrow> chat_type \<Rightarrow> user_preferences option \<Rightarrow> ingest_result" where
  "mute_gate env ev ctype user_prefs =
     (let ignore_muted_chats = (case user_prefs of
                                  Some p \<Rightarrow> pref_ignore_muted_chats p
                                | None \<Rightarrow> cfg_ignore_muted_chats (i_config env))
      in if ignore_muted_chats
         then (case (if ctype = Private then map_option entity_id (ev_sender ev)
                     else Some (entity_id (ev_chat ev))) of
                 None \<Rightarrow> HandlerError
               | Some check_id \<Rightarrow>
                   (if check_id \<in> muted_chats (i_cache env) then FilteredMuted
                    else build_save_args env ev ctype))
         else build_save_args env ev ctype)"

text \<open>
  \<open>handle_new_message\<close>, lines 676 to 804. A failed read of the preferences leaves
  \<open>user_prefs\<close> at \<open>None\<close>; \<open>_group_sizes.get(chat.id)\<close> is \<open>map_of\<close> on the cache.
\<close>

definition handle_new_message :: "ingest_env \<Rightarrow> event \<Rightarrow> ingest_result" where
  "handle_new_message env ev =
     (let chat = ev_chat ev;
          sender = ev_sender ev
      in if sender \<noteq> None \<and> Some (entity_id (the sender)) = i_client_user_id env
         then SkippedOwnMessage
         else if sender \<noteq> None \<and> entity_id (the sender) = cfg_bot_user_id (i_config env)
         then SkippedBotMessage
         else if \<not> truthy (ev_raw_text ev) then SkippedNoText
         else (let user_prefs = (case i_prefs env of Some r \<Rightarrow> r | None \<Rightarrow> None);
                   ctype = get_chat_type chat
               in if ctype \<in> {Group, Supergroup, Gigagroup}
                  then (let ignore_large_groups =
                              (case user_prefs of
                                 Some p \<Rightarrow> pref_ignore_large_groups p
                               | None \<Rightarrow> cfg_ignore_large_groups (i_config env));
                            max_group_size =
                              (case user_prefs of
                                 Some p \<Rightarrow> pref_max_group_size p
                               | None \<Rightarrow> cfg_max_group_size (i_config env))
                        in if ignore_large_groups
                           then (case map_of (group_sizes (i_cache env)) (entity_id chat) of
                                   Some participant_count \<Rightarrow>
                                     (if participant_count \<ge> max_group_size then FilteredLargeGroup
                                      else mute_gate env ev ctype user_prefs)
                                 | None \<Rightarrow> mute_gate env ev ctype user_prefs)
                           else mute_gate env ev ctype user_prefs)
                  else mute_gate env ev ctype user_prefs))"

text \<open>The effect of one inbound event on the table.\<close>

definition ingest :: "ingest_env \<Rightarrow> save_env \<Rightarrow> event \<Rightarrow> message list \<Rightarrow> message list" where
  "ingest env senv ev db =
     (case handle_new_message env ev of
        Saved args \<Rightarrow> save_message senv args db
      | _ \<Rightarrow> db)"

section \<open>Feedback handler: label action (bot.py)\<close>

datatype emoji = RedCircle | YellowCircle | GreenCircle | WhiteCircle

definition get_priority_emoji :: "py_str option \<Rightarrow> emoji" where
  "get_priority_emoji lbl =
     (if lbl = Some (ascii ''high'') then RedCircle
      else if lbl = Some (ascii ''medium'') then YellowCircle
      else if lbl = Some (ascii ''low'') then GreenCircle
      else WhiteCircle)"

definition valid_labels :: "py_str list" where
  "valid_labels = [ascii ''high'', ascii ''medium'', ascii ''low'']"

text \<open>
  What the user is shown at the end of \<open>handle_label_callback\<close>, one constructor for each
  call of \<open>query.edit_message_text\<close>, with the values that the text is formatted from. The
  confirmation is the alert's own text, then the emoji and the label in title case.
  \<open>Unanswered\<close> stands for an exception of \<open>query.answer()\<close>, which is outside the
  \<open>try\<close>: nothing is shown and nothing is stored. \<open>LabelProcessingError\<close> is the text of
  the outer handler (line 275), and \<open>LabelNoReply\<close> stands for an exception of that last
  \<open>edit_message_text\<close>, which leaves the function: nothing is shown.
\<close>

datatype label_reply =
    Unanswered
  | InvalidCallbackData
  | InvalidCallbackFormat
  | UnknownAction py_str
  | InvalidMessageId py_str
  | NonPositiveMessageId int
  | InvalidPriority py_str
  | MessageNotFound
  | DatabaseErrorReply
  | LabelConfirmed py_str emoji py_str
  | LabelProcessingError
  | LabelNoReply

text \<open>
  What the handler meets: the runtime, whether \<open>query.answer()\<close> returns, the outcome of
  each storage attempt, the clock, the text of the message that carries the buttons,
  and whether each kind of \<open>edit_message_text\<close> returns: the one of an error reply inside
  the \<open>try\<close>, the one of the confirmation, and the one of the outer handler.
\<close>

record label_env =
  l_runtime :: py_runtime
  l_answer_ok :: bool
  l_db_at :: "nat \<Rightarrow> db_result"
  l_now :: int
  l_alert_text :: py_str
  l_reply_ok :: bool
  l_edit_ok :: bool
  l_handler_reply_ok :: bool

text \<open>
  An exception inside the \<open>try\<close> reaches the outer handler, which logs and edits the
  message; an error reply inside the \<open>try\<close> is itself an edit that may raise.
\<close>

definition label_handler_reply :: "label_env \<Rightarrow> label_reply" where
  "label_handler_reply env = (if l_handler_reply_ok env then LabelProcessingError else LabelNoReply)"

definition label_error_reply :: "label_env \<Rightarrow> label_reply \<Rightarrow> label_reply" where
  "label_error_reply env reply = (if l_reply_ok env then reply else label_handler_reply env)"

definition set_label :: "int \<Rightarrow> py_str \<Rightarrow> int \<Rightarrow> message list \<Rightarrow> message list" where
  "set_label message_id lbl now db =
     map (\<lambda>m. if msg_id m = message_id
              then m\<lparr>label := Some lbl, labeled_at := Some now\<rparr>
              else m) db"

text \<open>
  Lines 204 to 246, the loop \<open>for attempt in range(max_retries)\<close>. The result is the
  table and, when the loop is left otherwise than by the \<open>break\<close> after a committed
  update (\<open>None\<close>), the way it is left: the reply \<open>MessageNotFound\<close> or
  \<open>DatabaseErrorReply\<close> that the handler edits in before it returns, or
  \<open>LabelProcessingError\<close> for an exception other than \<open>OperationalError\<close>, which reaches
  the outer handler.
\<close>

fun label_attempts ::
  "nat list \<Rightarrow> nat \<Rightarrow> (nat \<Rightarrow> db_result) \<Rightarrow> int \<Rightarrow> py_str \<Rightarrow> int \<Rightarrow> message list
   \<Rightarrow> message list \<times> label_reply option" where
  "label_attempts [] max_retries db_at message_id lbl now db = (db, None)"
| "label_attempts (attempt # rest) max_retries db_at message_id lbl now db =
     (case db_at attempt of
        DbOk \<Rightarrow>
          (case find (\<lambda>m. msg_id m = message_id) db of
             None \<Rightarrow> (db, Some MessageNotFound)
           | Some message \<Rightarrow> (set_label message_id lbl now db, None))
      | DbLocked \<Rightarrow>
          (if attempt < max_retries - 1
           then label_attempts rest max_retries db_at message_id lbl now db
           else (db, Some DatabaseErrorReply))
      | DbFailed \<Rightarrow> (db, Some LabelProcessingError))"

text \<open>\<open>handle_label_callback\<close>; the colon is code point 58.\<close>

definition handle_label_callback ::
  "label_env \<Rightarrow> py_str option \<Rightarrow> message list \<Rightarrow> message list \<times> label_reply" where
  "handle_label_callback env data db =
     (if \<not> l_answer_ok env then (db, Unanswered)
      else if \<not> truthy data then (db, label_error_reply env InvalidCallbackData)
      else (let parts = split_on 58 (the data)
            in if length parts \<noteq> 3 then (db, label_error_reply env InvalidCallbackFormat)
               else if parts ! 0 \<noteq> ascii ''label''
               then (db, label_error_reply env (UnknownAction (parts ! 0)))
               else (let message_id_str = parts ! 1;
                         lbl = parts ! 2
                     in case py_int (l_runtime env) message_id_str of
                          None \<Rightarrow> (db, label_error_reply env (InvalidMessageId message_id_str))
                        | Some message_id \<Rightarrow>
                            (if message_id \<le> 0
                             then (db, label_error_reply env (NonPositiveMessageId message_id))
                             else if lbl \<notin> set valid_labels
                             then (db, label_error_reply env (InvalidPriority lbl))
                             else (let max_retries = 3
                                   in case label_attempts [0..<max_retries] max_retries
                                             (l_db_at env) message_id lbl (l_now env) db of
                                        (db', Some reply) \<Rightarrow>
                                          (if reply = LabelProcessingError
                                           then (db', label_handler_reply env)
                                           else (db', label_error_reply env reply))
                                      | (db', None) \<Rightarrow>
                                          (if l_edit_ok env
                                           then (db', LabelConfirmed (l_alert_text env)
                                                        (get_priority_emoji (Some lbl)) lbl)
                                           else (db', label_handler_reply env)))))))"

section \<open>Feedback handler: mute action (bot.py)\<close>

text \<open>
  \<open>duration_map\<close>: the action names with the length of the mute (absent for ever) and
  the text shown for it.
\<close>

definition duration_map :: "(py_str \<times> (int option \<times> py_str)) list" where
  "duration_map =
     [(ascii ''mute_1h'', (Some (1 * HOUR), ascii ''1 hour'')),
      (ascii ''mute_8h'', (Some (8 * HOUR), ascii ''8 hours'')),
      (ascii ''mute_1d'', (Some (24 * HOUR), ascii ''1 day'')),
      (ascii ''mute_1w'', (Some (168 * HOUR), ascii ''1 week'')),
      (ascii ''mute_forever'', (None, ascii ''forever''))]"

text \<open>
  What the user is shown at the end of \<open>handle_mute_callback\<close>. \<open>MuteTransportError\<close>
  is the text of line 525, 'Error: Could not mute chat'; \<open>MuteConfirmed\<close> carries the
  kind of chat shown, its title and the duration shown.
\<close>

datatype mute_reply =
    MuteInvalidFormat
  | MuteUnknownDuration
  | MuteMessageNotFound
  | MuteTransportError
  | MuteConfirmed py_str py_str py_str
  | MuteProcessingError
  | MuteNoReply

text \<open>
  The last \<open>edit_message_text\<close> returns, or raises 'Message is not modified' (ignored:
  the confirmation is on screen already), or raises something else.
\<close>

datatype edit_result = EditOk | EditNotModified | EditFailed

text \<open>
  \<open>m_transport_ok\<close>: lines 429 to 475 run through, that is \<open>get_userbot_client\<close>,
  \<open>get_input_entity\<close> and the \<open>UpdateNotifySettingsRequest\<close> all return. \<open>m_reply_ok\<close>:
  the \<open>edit_message_text\<close> of an error reply inside the \<open>try\<close> returns.
  \<open>m_handler_reply_ok\<close>: the \<open>edit_message_text\<close> of the outer handler (line 562)
  returns; when it raises, the exception leaves the function and nothing is shown
  (\<open>MuteNoReply\<close>).
\<close>

record mute_env =
  m_runtime :: py_runtime
  m_lookup :: db_result
  m_transport_ok :: bool
  m_reply_ok :: bool
  m_edit :: edit_result
  m_handler_reply_ok :: bool

definition mute_handler_reply :: "mute_env \<Rightarrow> mute_reply" where
  "mute_handler_reply env = (if m_handler_reply_ok env then MuteProcessingError else MuteNoReply)"

definition mute_error_reply :: "mute_env \<Rightarrow> mute_reply \<Rightarrow> mute_reply" where
  "mute_error_reply env reply = (if m_reply_ok env then reply else mute_handler_reply env)"

definition handle_mute_callback ::
  "mute_env \<Rightarrow> py_str option \<Rightarrow> message list \<Rightarrow> filter_cache \<Rightarrow> filter_cache \<times> mute_reply" where
  "handle_mute_callback env data db cache =
     (case data of
        None \<Rightarrow> (cache, mute_handler_reply env)
      | Some d \<Rightarrow>
          (let parts = split_on 58 d
           in if length parts \<noteq> 3 then (cache, mute_error_reply env MuteInvalidFormat)
              else (let action = parts ! 0
                    in case py_int (m_runtime env) (parts ! 1) of
                         None \<Rightarrow> (cache, mute_handler_reply env)
                       | Some message_id \<Rightarrow>
                     (case py_int (m_runtime env) (parts ! 2) of
                         None \<Rightarrow> (cache, mute_handler_reply env)
                       | Some cid \<Rightarrow>
                     (case map_of duration_map action of
                         None \<Rightarrow> (cache, mute_error_reply env MuteUnknownDuration)
                       | Some (duration_timedelta, duration_display) \<Rightarrow>
                     (if m_lookup env \<noteq> DbOk then (cache, mute_handler_reply env)
                      else (case find (\<lambda>m. msg_id m = message_id) db of
                         None \<Rightarrow> (cache, mute_error_reply env MuteMessageNotFound)
                       | Some message \<Rightarrow>
                           (let title = (if truthy (chat_title message)
                                         then the (chat_title message)
                                         else ascii ''Unknown Chat'');
                                ctype = chat_type message
                            in if \<not> m_transport_ok env then (cache, mute_error_reply env MuteTransportError)
                               else (let cache = add_muted_chat cid cache;
                                         chat_type_display =
                                           (if ctype \<in> {Group, Supergroup, Gigagroup}
                                            then ascii ''group'' else ascii ''chat'')
                                     in case m_edit env of
                                          EditFailed \<Rightarrow> (cache, mute_handler_reply env)
                                        | _ \<Rightarrow> (cache, MuteConfirmed chat_type_display title
                                                           duration_display))))))))))"

section \<open>Filter cache refresh (userbot.py)\<close>

text \<open>
  An exception of the transport: the rate limit \<open>FloodWaitError\<close> with the seconds to
  wait, or any other.
\<close>

datatype exn = FloodWait nat | OtherError

text \<open>
  \<open>client.iter_dialogs()\<close> yields a dialog, or raises while fetching the next one.
\<close>

datatype 'd fetched = Dialog 'd | EnumerationRaises exn

datatype client_state = ClientFailed | ClientDisconnected | ClientConnected

text \<open>The lines logged by a sweep that the properties below speak of.\<close>

datatype log_event =
    LogNotConnected
  | LogRefreshFailed
  | LogFloodWait nat nat
  | LogRefreshedMuted nat
  | LogRefreshedSizes nat
  | LogNoResults









text \<open>
  The full-metadata request for a group: it gives \<open>full.full_chat.participants_count\<close>
  (possibly \<open>None\<close>) or raises.
\<close>

datatype fetch_result = FetchCount "int option" | FetchRaises exn

text \<open>
  The entity of a dialog in the group-size sweep: a \<open>Chat\<close> with its
  \<open>participants_count\<close> attribute and the result of \<open>GetFullChatRequest\<close>, asked only
  when the attribute is absent; a \<open>Channel\<close> with \<open>megagroup\<close> set, with the result of
  \<open>GetFullChannelRequest\<close> and the attribute to fall back on; anything else.
\<close>

datatype group_entity =
    GroupChat "int option" fetch_result
  | Megagroup fetch_result "int option"
  | NoGroup

text \<open>One dialog: reading it raises, or it has \<open>is_group\<close>, an id and an entity.\<close>

datatype group_dialog = GroupDialogRaises exn | GroupDialog bool int group_entity

text \<open>
  Lines 380 to 422: the participant count of one dialog, or the seconds of a rate limit
  met while asking for it (the two \<open>break\<close>s with their warning).
\<close>

fun participant_count_of :: "group_entity \<Rightarrow> nat + int option" where
  "participant_count_of (GroupChat (Some c) fetch) = Inr (Some c)"
| "participant_count_of (GroupChat None (FetchCount r)) = Inr r"
| "participant_count_of (GroupChat None (FetchRaises (FloodWait secs))) = Inl secs"
| "participant_count_of (GroupChat None (FetchRaises OtherError)) = Inr None"
| "participant_count_of (Megagroup (FetchCount r) attr) = Inr r"
| "participant_count_of (Megagroup (FetchRaises (FloodWait secs)) attr) = Inl secs"
| "participant_count_of (Megagroup (FetchRaises OtherError) attr) = Inr attr"
| "participant_count_of NoGroup = Inr None"

text \<open>
  The loop of lines 369 to 434: the dict gathered and the warnings logged, or \<open>None\<close>
  when the enumeration itself raises.
\<close>

fun group_sweep_loop ::
  "group_dialog fetched list \<Rightarrow> (int \<times> int) list \<Rightarrow> log_event list
   \<Rightarrow> ((int \<times> int) list \<times> log_event list) option" where
  "group_sweep_loop [] sizes_dict logs = Some (sizes_dict, logs)"
| "group_sweep_loop (EnumerationRaises e # ds) sizes_dict logs = None"
| "group_sweep_loop (Dialog (GroupDialogRaises (FloodWait secs)) # ds) sizes_dict logs =
     Some (sizes_dict, logs)"
| "group_sweep_loop (Dialog (GroupDialogRaises OtherError) # ds) sizes_dict logs =
     group_sweep_loop ds sizes_dict logs"
| "group_sweep_loop (Dialog (GroupDialog is_group cid entity) # ds) sizes_dict logs =
     (if \<not> is_group then group_sweep_loop ds sizes_dict logs
      else (case participant_count_of entity of
              Inl secs \<Rightarrow> Some (sizes_dict, logs @ [LogFloodWait secs (length sizes_dict)])
            | Inr None \<Rightarrow> group_sweep_loop ds sizes_dict logs
            | Inr (Some participant_count) \<Rightarrow>
                group_sweep_loop ds (AList.update cid participant_count sizes_dict) logs))"

record group_sweep_env =
  gs_client :: client_state
  gs_dialogs :: "group_dialog fetched list"

definition refresh_group_sizes :: "group_sweep_env \<Rightarrow> filter_cache \<Rightarrow> filter_cache \<times> log_event list" where
  "refresh_group_sizes env cache =
     (case gs_client env of
        ClientFailed \<Rightarrow> (cache, [LogRefreshFailed])
      | ClientDisconnected \<Rightarrow> (cache, [LogNotConnected])
      | ClientConnected \<Rightarrow>
          (case group_sweep_loop (gs_dialogs env) [] [] of
             None \<Rightarrow> (cache, [LogRefreshFailed])
           | Some (sizes_dict, logs) \<Rightarrow>
               (if sizes_dict \<noteq> []
                then (cache\<lparr>group_sizes := sizes_dict\<rparr>,
                      logs @ [LogRefreshedSizes (length sizes_dict)])
                else (cache, logs @ [LogNoResults]))))"

section \<open>Runs of the operations that write the message table\<close>

text \<open>
  The table \<open>messages\<close> is written by the ingestion of an event (insert, then the alert
  flag), by the digest selection and by the label action; the mute, unmute and cancel
  handlers only read it.
\<close>

datatype core_op =
    OpIngest ingest_env save_env event
  | OpDigest digest_env int nat
  | OpLabel label_env "py_str option"

fun apply_op :: "core_op \<Rightarrow> message list \<Rightarrow> message list" where
  "apply_op (OpIngest env senv ev) db = ingest env senv ev db"
| "apply_op (OpDigest env hours limit) db =
     (case get_unlabeled_messages env hours limit db of
        None \<Rightarrow> db
      | Some (db', messages) \<Rightarrow> db')"
| "apply_op (OpLabel env data) db = fst (handle_label_callback env data db)"

text \<open>The table before the run and after each of its operations.\<close>

fun trace :: "core_op list \<Rightarrow> message list \<Rightarrow> message list list" where
  "trace [] db = [db]"
| "trace (op # ops) db = db # trace ops (apply_op op db)"

text \<open>How often a flag changes its value along a history.\<close>

fun flips :: "bool list \<Rightarrow> nat" where
  "flips (a # b # bs) = (if a = b then 0 else 1) + flips (b # bs)"
| "flips bs = 0"

section \<open>Statements of the specification and sample data\<close>

subsection \<open>Digest selection\<close>



text \<open>
  A row as the marking \<open>UPDATE\<close> leaves it.
\<close>

definition marked :: "int \<Rightarrow> message \<Rightarrow> message" where
  "marked t m = m\<lparr>included_in_summary := True, summary_sent_at := Some t\<rparr>"

subsection \<open>Tracking flags\<close>

text \<open>
  \<open>flags_kept db db'\<close>: every row of \<open>db\<close> is still at its position in \<open>db'\<close> with the
  same identifier, and neither tracking flag went from true to false.
\<close>

definition flags_kept :: "message list \<Rightarrow> message list \<Rightarrow> bool" where
  "flags_kept db db' =
     (length db \<le> length db'
      \<and> (\<forall>i<length db. msg_id (db' ! i) = msg_id (db ! i)
            \<and> (included_in_summary (db ! i) \<longrightarrow> included_in_summary (db' ! i))
            \<and> (warning_sent (db ! i) \<longrightarrow> warning_sent (db' ! i))))"

subsection \<open>Oracle failures and the size filter\<close>

text \<open>
  The ways the oracle call of \<open>calculate_ai_priority_score\<close> can fail: \<open>import ollama\<close>
  raises \<open>ImportError\<close> or anything else, the call times out, any other exception, a
  reply with no digit in it, or a reply whose first number \<open>int\<close> rejects.
\<close>

definition oracle_call_fails :: "py_runtime \<Rightarrow> oracle_outcome \<Rightarrow> bool" where
  "oracle_call_fails rt outcome =
     (case outcome of
        OllamaNotInstalled \<Rightarrow> True
      | OllamaImportRaises \<Rightarrow> True
      | OracleTimeout \<Rightarrow> True
      | OracleFailed \<Rightarrow> True
      | OracleReply result \<Rightarrow>
          \<not> list_ex (re_digit rt) result
          \<or> py_int rt (takeWhile (re_digit rt) (dropWhile (\<lambda>c. \<not> re_digit rt c) result)) = None)"

text \<open>
  The row that \<open>save_message\<close> is to store for a message when the oracle gives no score:
  the arguments of the call, the derived flags, and the rule-based score of the same text,
  flags and sender.
\<close>

definition rule_based_row :: "save_env \<Rightarrow> save_args \<Rightarrow> py_str option \<Rightarrow> int \<Rightarrow> message" where
  "rule_based_row env args topic new_id =
     \<lparr>msg_id = new_id,
      telegram_message_id = a_telegram_message_id args,
      chat_id = a_chat_id args,
      chat_title = a_chat_title args,
      chat_type = a_chat_type args,
      user_id = a_user_id args,
      user_name = a_user_name args,
      message_text = a_message_text args,
      timestamp = a_timestamp args,
      has_mention = detect_mention (s_runtime env) (a_message_text args) (a_client_username args),
      is_question = detect_question (s_runtime env) (a_message_text args),
      message_length = (if truthy (a_message_text args)
                        then int (length (the (a_message_text args))) else 0),
      topic_summary = topic,
      priority_score =
        calculate_priority_score (a_message_text args)
          (detect_mention (s_runtime env) (a_message_text args) (a_client_username args))
          (detect_question (s_runtime env) (a_message_text args))
          (a_user_id args \<in> s_high_priority_users env),
      label = None,
      labeled_at = None,
      included_in_summary = False,
      summary_sent_at = None,
      warning_sent = False,
      warning_sent_at = None\<rparr>"




fun group_title :: "entity \<Rightarrow> py_str option" where
  "group_title (ChatEntity cid title) = Some title"
| "group_title (ChannelEntity cid title g m b) = Some title"
| "group_title other = None"

subsection \<open>Effective filter settings of the ingestion pipeline\<close>




subsection \<open>Outcomes of a sweep step\<close>







subsection \<open>Sample data\<close>

definition sample_message :: "int \<Rightarrow> int \<Rightarrow> int \<Rightarrow> int \<Rightarrow> message" where
  "sample_message i chat hour score =
     \<lparr>msg_id = i, telegram_message_id = 100 + i, chat_id = chat, chat_title = None,
      chat_type = Private, user_id = chat, user_name = None,
      message_text = Some (ascii ''hi''), timestamp = hour * HOUR,
      has_mention = False, is_question = False, message_length = 2,
      topic_summary = None, priority_score = score, label = None, labeled_at = None,
      included_in_summary = False, summary_sent_at = None,
      warning_sent = False, warning_sent_at = None\<rparr>"

definition sample_db :: "message list" where
  "sample_db = [sample_message 1 5 10 3, sample_message 2 5 11 5, sample_message 3 7 11 8,
                sample_message 4 6 12 5, sample_message 5 6 1 9]"

definition sample_config :: config where
  "sample_config =
     \<lparr>cfg_min_priority_score = 1, cfg_warning_threshold_score = 5,
      cfg_ignore_large_groups = True, cfg_max_group_size = 20, cfg_ignore_muted_chats = True,
      cfg_ai_enabled = True, cfg_client_user_id = 1000, cfg_bot_user_id = 2000\<rparr>"

definition sample_cache :: filter_cache where
  "sample_cache = \<lparr>muted_chats = {7}, group_sizes = [(9, 20)]\<rparr>"

definition sample_digest_env :: digest_env where
  "sample_digest_env =
     \<lparr>d_config = sample_config, d_cache = sample_cache, d_now = 13 * HOUR,
      d_prefs = Some None, d_mark_time = 13 * HOUR + 1, d_storage = DbOk\<rparr>"

definition ascii_digit :: "nat \<Rightarrow> bool" where
  "ascii_digit c = (48 \<le> c \<and> c \<le> 57)"

definition sample_runtime :: py_runtime where
  "sample_runtime =
     \<lparr>re_word = (\<lambda>c. ascii_digit c \<or> (65 \<le> c \<and> c \<le> 90) \<or> c = 95 \<or> (97 \<le> c \<and> c \<le> 122)),
      re_digit = ascii_digit,
      py_lower = map (\<lambda>c. if 65 \<le> c \<and> c \<le> 90 then c + 32 else c),
      py_strip = (\<lambda>s. rev (dropWhile (\<lambda>c. c = 32) (rev (dropWhile (\<lambda>c. c = 32) s)))),
      py_int = (\<lambda>s. if s \<noteq> [] \<and> list_all ascii_digit s
                     then Some (foldl (\<lambda>a c. 10 * a + int (c - 48)) 0 s) else None)\<rparr>"

definition sample_warning_env :: warning_env where
  "sample_warning_env =
     \<lparr>w_bot_available = True, w_send_ok = True, w_db_at = (\<lambda>attempt. DbOk), w_now = 14 * HOUR\<rparr>"

definition sample_save_env :: save_env where
  "sample_save_env =
     \<lparr>s_config = sample_config, s_runtime = sample_runtime, s_high_priority_users = {5},
      s_oracle = OracleTimeout, s_topic = TopicGives None, s_insert = DbOk, s_threshold_read = Some None,
      s_warning = sample_warning_env\<rparr>"

definition sample_args :: save_args where
  "sample_args =
     \<lparr>a_telegram_message_id = 77, a_chat_id = 5, a_chat_title = None, a_chat_type = Private,
      a_user_id = 5, a_user_name = None, a_message_text = Some (ascii ''ok @alice?''),
      a_timestamp = 14 * HOUR, a_client_username = Some (ascii ''alice'')\<rparr>"

definition sample_label_env :: "int \<Rightarrow> label_env" where
  "sample_label_env now =
     \<lparr>l_runtime = sample_runtime, l_answer_ok = True, l_db_at = (\<lambda>attempt. DbOk),
      l_now = now, l_alert_text = ascii ''alert'', l_reply_ok = True, l_edit_ok = True,
      l_handler_reply_ok = True\<rparr>"

definition sample_mute_env :: "bool \<Rightarrow> mute_env" where
  "sample_mute_env ok =
     \<lparr>m_runtime = sample_runtime, m_lookup = DbOk, m_transport_ok = ok, m_reply_ok = True,
      m_edit = EditOk, m_handler_reply_ok = True\<rparr>"

definition sample_ingest_env :: ingest_env where
  "sample_ingest_env =
     \<lparr>i_config = sample_config, i_cache = sample_cache, i_client_user_id = Some 1000,
      i_client_username = Some (ascii ''alice''), i_prefs = Some None,
      i_runtime = sample_runtime\<rparr>"

definition sample_event :: "int \<Rightarrow> event" where
  "sample_event gid =
     \<lparr>ev_message_id = 77, ev_raw_text = Some (ascii ''hello''), ev_date = 14 * HOUR,
      ev_chat = ChatEntity gid (ascii ''team''),
      ev_sender = Some (UserEntity 5 (Some (ascii ''Bob'')) None)\<rparr>"


text \<open>
  A run: a digest selection, then a label action on row 2.
\<close>

definition sample_ops :: "core_op list" where
  "sample_ops = [OpDigest sample_digest_env 4 2,
                 OpLabel (sample_label_env (14 * HOUR)) (Some (ascii ''label:2:high''))]"




section \<open>Proofs\<close>

subsection \<open>Scoring engine\<close>

lemmas score_consts =
  SCORE_MENTION_def SCORE_QUESTION_def SCORE_LONG_MESSAGE_def SCORE_HIGH_PRIORITY_USER_def
  MIN_LONG_MESSAGE_LENGTH_def

text \<open>
  C4. For every optional text and every combination of the mention, question and
  flagged-sender flags, the rule-based score is 3 for a mention plus 2 for a question plus
  1 for a present text of length strictly above 100 plus 2 for a flagged sender. The
  function is total (it never fails), an absent text contributes nothing, the score lies
  between 0 and 8, a long text with no other signal scores exactly 1, and a message with
  mention, question and flagged sender scores 7, or 8 when it is also long.
\<close>

theorem calculate_priority_score_rule:
  "calculate_priority_score t m q h =
     (if m then 3 else 0) + (if q then 2 else 0)
     + (case t of None \<Rightarrow> 0 | Some s \<Rightarrow> if 100 < length s then 1 else 0)
     + (if h then 2 else 0)
   \<and> calculate_priority_score None m q h = (if m then 3 else 0) + (if q then 2 else 0) + (if h then 2 else 0)
   \<and> 0 \<le> calculate_priority_score t m q h
   \<and> calculate_priority_score t m q h \<le> 8
   \<and> (100 < length s \<longrightarrow> calculate_priority_score (Some s) False False False = 1)
   \<and> calculate_priority_score t True True True =
       (if truthy t \<and> 100 < length (the t) then 8 else 7)"
  by (cases t) (auto simp: calculate_priority_score_def truthy_def score_consts Let_def)

theorem calculate_priority_score_rule_witness:
  "100 < length (replicate 101 (97::nat))
   \<and> calculate_priority_score (Some (replicate 101 97)) False False False = 1
   \<and> calculate_priority_score (Some (replicate 101 97)) True True True = 8
   \<and> calculate_priority_score None True True True = 7"
  using calculate_priority_score_rule [of "Some (replicate 101 97)" False False False "replicate 101 97"]
        calculate_priority_score_rule [of "Some (replicate 101 97)" True True True "replicate 101 97"]
        calculate_priority_score_rule [of None True True True "[]"]
  by (simp add: truthy_def)

subsection \<open>Digest selection\<close>















subsection \<open>Tracking flags over runs of core operations\<close>

lemma flags_kept_refl: "flags_kept db db"
  by (simp add: flags_kept_def)

lemma flags_kept_trans: "flags_kept a b \<Longrightarrow> flags_kept b c \<Longrightarrow> flags_kept a c"
  unfolding flags_kept_def by (metis (no_types, lifting) le_trans less_le_trans)

lemma flags_kept_mark_included: "flags_kept db (mark_included ids now db)"
  by (simp add: flags_kept_def mark_included_def)

lemma flags_kept_set_warning_sent: "flags_kept db (set_warning_sent mid now db)"
  by (simp add: flags_kept_def set_warning_sent_def)

lemma flags_kept_set_label: "flags_kept db (set_label mid lbl now db)"
  by (simp add: flags_kept_def set_label_def)

lemma flags_kept_append: "flags_kept db (db @ ms)"
  by (simp add: flags_kept_def nth_append)

lemma flags_kept_warning_attempts:
  "flags_kept db (warning_attempts as mr db_at mid now db)"
  by (induction as) (auto simp: flags_kept_refl flags_kept_set_warning_sent split: db_result.splits)

lemma flags_kept_send_warning: "flags_kept db (send_warning_for_message env mid db)"
  by (simp add: send_warning_for_message_def flags_kept_refl flags_kept_warning_attempts Let_def)

lemma flags_kept_save_message: "flags_kept db (save_message env args db)"
  unfolding save_message_def Let_def
  by (auto split: db_result.splits sum.splits
           intro: flags_kept_refl flags_kept_append
                  flags_kept_trans [OF flags_kept_append flags_kept_send_warning])

lemma flags_kept_ingest: "flags_kept db (ingest env senv ev db)"
  by (simp add: ingest_def flags_kept_refl flags_kept_save_message split: ingest_result.splits)

lemma flags_kept_digest:
  "get_unlabeled_messages env hours limit db = Some (db', ms) \<Longrightarrow> flags_kept db db'"
  by (auto simp: get_unlabeled_messages_def Let_def flags_kept_refl flags_kept_mark_included
           split: db_result.splits if_splits)

lemma flags_kept_label_attempts:
  "label_attempts as mr db_at mid lbl now db = (db', r) \<Longrightarrow> flags_kept db db'"
  by (induction as)
     (auto simp: flags_kept_refl flags_kept_set_label split: db_result.splits option.splits if_splits)

lemma flags_kept_label: "flags_kept db (fst (handle_label_callback env data db))"
  unfolding handle_label_callback_def Let_def
  by (auto simp: flags_kept_refl split: option.splits prod.splits
           dest: flags_kept_label_attempts)

lemma flags_kept_apply_op: "flags_kept db (apply_op op db)"
  by (cases op) (auto simp: flags_kept_ingest flags_kept_label flags_kept_refl
                      dest: flags_kept_digest split: option.splits)

lemma flags_kept_trace: "d \<in> set (trace ops db) \<Longrightarrow> flags_kept db d"
proof (induction ops arbitrary: db)
  case Nil
  then show ?case by (simp add: flags_kept_refl)
next
  case (Cons op ops)
  then show ?case
    by (auto simp: flags_kept_refl intro: flags_kept_trans [OF flags_kept_apply_op])
qed

lemma trace_nth_kept:
  "j \<le> k \<Longrightarrow> k < length (trace ops db) \<Longrightarrow> flags_kept (trace ops db ! j) (trace ops db ! k)"
proof (induction ops arbitrary: db j k)
  case Nil
  then show ?case by (simp add: flags_kept_refl)
next
  case (Cons op ops)
  show ?case
  proof (cases j)
    case 0
    have "flags_kept db (trace (op # ops) db ! k)"
      by (rule flags_kept_trace [OF nth_mem [OF Cons.prems(2)]])
    moreover have "trace (op # ops) db ! j = db" using 0 by simp
    ultimately show ?thesis by simp
  next
    case (Suc j')
    then obtain k' where k': "k = Suc k'" using Cons.prems(1) by (cases k) auto
    then show ?thesis using Suc Cons.IH [of j' k' "apply_op op db"] Cons.prems by simp
  qed
qed

lemma flips_const: "\<forall>x\<in>set bs. x = b \<Longrightarrow> flips (b # bs) = 0"
  by (induction bs) auto

lemma flips_mono: "sorted bs \<Longrightarrow> flips bs \<le> 1"
proof (induction bs rule: flips.induct)
  case (1 a b bs)
  show ?case
  proof (cases "a = b")
    case True
    have "sorted (b # bs)" using 1(2) by (metis sorted_simps(2))
    then have "flips (b # bs) \<le> 1" by (rule 1(1))
    then show ?thesis using True by simp
  next
    case False
    with 1(2) have "b" by auto
    with 1(2) have "\<forall>x\<in>set bs. x = b" by auto
    then have "flips (b # bs) = 0" by (rule flips_const)
    then show ?thesis by simp
  qed
qed simp_all

lemma length_trace: "length (trace ops db) = Suc (length ops)"
  by (induction ops arbitrary: db) auto

lemma sorted_history:
  assumes "i < length db" 
    and "\<And>a b. flags_kept a b \<Longrightarrow> i < length a \<Longrightarrow> f (a ! i) \<longrightarrow> f (b ! i)"
  shows "sorted (map (\<lambda>d. f (d ! i)) (trace ops db))"
  using assms(1)
proof (induction ops arbitrary: db)
  case Nil
  then show ?case by simp
next
  case (Cons op ops)
  have len: "i < length (apply_op op db)"
    using flags_kept_apply_op [of db op] Cons.prems by (simp add: flags_kept_def)
  have "\<forall>d\<in>set (trace ops (apply_op op db)). f (db ! i) \<le> f (d ! i)"
  proof
    fix d assume "d \<in> set (trace ops (apply_op op db))"
    then have "flags_kept db d"
      using flags_kept_trace [of d "op # ops" db] by simp
    then show "f (db ! i) \<le> f (d ! i)" using assms(2) Cons.prems by simp
  qed
  then show ?case using Cons.IH [OF len] by simp
qed

lemma trace_drop:
  "j \<le> length ops \<Longrightarrow> drop j (trace ops db) = trace (drop j ops) (trace ops db ! j)"
proof (induction ops arbitrary: db j)
  case Nil
  then show ?case by simp
next
  case (Cons op ops)
  show ?case
  proof (cases j)
    case 0
    then show ?thesis by simp
  next
    case (Suc j')
    then show ?thesis using Cons.IH [of j' "apply_op op db"] Cons.prems by simp
  qed
qed

text \<open>
  C2. Along every run of core operations (ingestion with its alert, digest selection,
  label action) started from any table, a row that is in the table at one moment of the
  run is at the same position, with the same identifier, at every later moment, and a
  digest-inclusion flag or an alert-sent flag that is set at the earlier moment is set
  at the later one: no operation resets a flag. Hence the history of each flag of the
  row, from the moment the row is in the table, changes value at most once.
\<close>

theorem tracking_flags_monotone:
  assumes "j \<le> k" and "k \<le> length ops" and "i < length (trace ops db ! j)"
  shows "i < length (trace ops db ! k)
       \<and> msg_id (trace ops db ! k ! i) = msg_id (trace ops db ! j ! i)
       \<and> (included_in_summary (trace ops db ! j ! i) \<longrightarrow> included_in_summary (trace ops db ! k ! i))
       \<and> (warning_sent (trace ops db ! j ! i) \<longrightarrow> warning_sent (trace ops db ! k ! i))
       \<and> flips (map (\<lambda>d. included_in_summary (d ! i)) (drop j (trace ops db))) \<le> 1
       \<and> flips (map (\<lambda>d. warning_sent (d ! i)) (drop j (trace ops db))) \<le> 1"
proof -
  have k: "k < length (trace ops db)" using assms(2) by (simp add: length_trace)
  have jk: "flags_kept (trace ops db ! j) (trace ops db ! k)"
    using assms(1) k by (rule trace_nth_kept)
  have A: "i < length (trace ops db ! k)
       \<and> msg_id (trace ops db ! k ! i) = msg_id (trace ops db ! j ! i)
       \<and> (included_in_summary (trace ops db ! j ! i) \<longrightarrow> included_in_summary (trace ops db ! k ! i))
       \<and> (warning_sent (trace ops db ! j ! i) \<longrightarrow> warning_sent (trace ops db ! k ! i))"
    using jk assms(3) unfolding flags_kept_def by auto
  have j: "j \<le> length ops" using assms(1,2) by simp
  have B: "flips (map (\<lambda>d. included_in_summary (d ! i)) (drop j (trace ops db))) \<le> 1"
    unfolding trace_drop [OF j]
    by (rule flips_mono, rule sorted_history [OF assms(3)]) (simp add: flags_kept_def)
  have C: "flips (map (\<lambda>d. warning_sent (d ! i)) (drop j (trace ops db))) \<le> 1"
    unfolding trace_drop [OF j]
    by (rule flips_mono, rule sorted_history [OF assms(3)]) (simp add: flags_kept_def)
  from A B C show ?thesis by (intro conjI) blast+
qed

subsection \<open>Oracle fallback\<close>

lemma first_number_eq:
  "first_number d r =
     (if list_ex d r then Some (takeWhile d (dropWhile (\<lambda>c. \<not> d c) r)) else None)"
  by (auto simp: first_number_def Let_def list_ex_iff dropWhile_eq_Nil_conv)

lemma ai_score_None:
  "truthy t \<Longrightarrow> oracle_call_fails rt out \<Longrightarrow> out \<noteq> OllamaImportRaises \<Longrightarrow>
   calculate_ai_priority_score rt t out = Inr None"
  by (cases t; cases out)
     (auto simp: calculate_ai_priority_score_def oracle_call_fails_def truthy_def first_number_eq)

lemma ai_score_raises:
  "truthy t \<Longrightarrow> calculate_ai_priority_score rt t OllamaImportRaises = Inl UnboundLocalError"
  by (cases t) (auto simp: calculate_ai_priority_score_def truthy_def)

lemma save_message_raises:
  "cfg_ai_enabled (s_config env) \<Longrightarrow> truthy (a_message_text args) \<Longrightarrow>
   s_oracle env = OllamaImportRaises \<Longrightarrow> save_message env args db = db"
  by (simp add: save_message_def score_message_def Let_def ai_score_raises)

lemma warning_attempts_cases:
  "warning_attempts as mr db_at mid now db = db
   \<or> warning_attempts as mr db_at mid now db = set_warning_sent mid now db"
  by (induction as) (auto split: db_result.splits)

lemma send_warning_cases:
  "send_warning_for_message env mid db = db
   \<or> send_warning_for_message env mid db = set_warning_sent mid (w_now env) db"
  using warning_attempts_cases by (simp add: send_warning_for_message_def Let_def)

lemma last_set_warning_sent:
  "db \<noteq> [] \<Longrightarrow> last (set_warning_sent mid now db) =
     (if msg_id (last db) = mid then (last db)\<lparr>warning_sent := True, warning_sent_at := Some now\<rparr>
      else last db)"
  by (simp add: set_warning_sent_def last_map)

lemma fresh_id_above: "m \<in> set db \<Longrightarrow> msg_id m < fresh_id db"
proof -
  assume "m \<in> set db"
  then have "msg_id m \<in> set (0 # map msg_id db)" by simp
  then have "msg_id m \<le> Max (set (0 # map msg_id db))" by (intro Max_ge) simp_all
  moreover have "Max (set (0 # map msg_id db)) = fold max (map msg_id db) 0"
    by (rule Max.set_eq_fold)
  ultimately show ?thesis unfolding fresh_id_def by linarith
qed

lemma set_warning_sent_fresh:
  "msg_id row = fresh_id db \<Longrightarrow>
   set_warning_sent (fresh_id db) now (db @ [row])
     = db @ [row\<lparr>warning_sent := True, warning_sent_at := Some now\<rparr>]"
proof -
  assume r: "msg_id row = fresh_id db"
  have "map (\<lambda>m. if msg_id m = fresh_id db
                 then m\<lparr>warning_sent := True, warning_sent_at := Some now\<rparr> else m) db = db"
    by (intro map_idI) (auto dest: fresh_id_above)
  then show ?thesis using r by (simp add: set_warning_sent_def)
qed

lemma save_message_rule_based:
  assumes "score_message env args = Inr (priority_score (rule_based_row env args topic (fresh_id db)))"
    and "generate_topic_summary (a_message_text args) (s_topic env) = Inr topic"
    and "s_insert env = DbOk"
  shows "save_message env args db = db @ [rule_based_row env args topic (fresh_id db)]
       \<or> save_message env args db =
           db @ [(rule_based_row env args topic (fresh_id db))
                   \<lparr>warning_sent := True, warning_sent_at := Some (w_now (s_warning env))\<rparr>]"
proof -
  let ?m = "rule_based_row env args topic (fresh_id db)"
  have id: "msg_id ?m = fresh_id db" by (simp add: rule_based_row_def)
  have "save_message env args db = db @ [?m]
        \<or> save_message env args db = send_warning_for_message (s_warning env) (fresh_id db) (db @ [?m])"
    using assms by (simp add: save_message_def Let_def rule_based_row_def)
  then have "save_message env args db = db @ [?m]
        \<or> save_message env args db = set_warning_sent (fresh_id db) (w_now (s_warning env)) (db @ [?m])"
    using send_warning_cases [of "s_warning env" "fresh_id db" "db @ [?m]"] by auto
  then show ?thesis by (simp only: set_warning_sent_fresh [OF id])
qed

text \<open>
  C5, as the code has it. When the oracle is enabled, the message has text, the storage
  accepts the insert, the topic oracle does not raise, and the scoring-oracle call fails
  in any way other than \<open>import ollama\<close> raising an exception that is not an
  \<open>ImportError\<close> (so: the client library is missing, the call times out, any other
  exception on the way, a reply holding no number, or a number that \<open>int\<close> rejects), the
  oracle function returns \<open>None\<close> and raises nothing, and \<open>save_message\<close> appends exactly
  one row to the table: the row made of the arguments of the call, whose score is the
  rule-based score of the same text, flags and sender (with the alert flag set when the
  alert was sent). In the excluded case no row is stored.
\<close>

theorem oracle_failure_falls_back:
  assumes "cfg_ai_enabled (s_config env)"
    and "truthy (a_message_text args)"
    and "oracle_call_fails (s_runtime env) (s_oracle env)"
    and "s_oracle env \<noteq> OllamaImportRaises"
    and "generate_topic_summary (a_message_text args) (s_topic env) = Inr topic"
    and "s_insert env = DbOk"
  shows "calculate_ai_priority_score (s_runtime env) (a_message_text args) (s_oracle env) = Inr None
       \<and> (save_message env args db = db @ [rule_based_row env args topic (fresh_id db)]
          \<or> save_message env args db =
              db @ [(rule_based_row env args topic (fresh_id db))
                      \<lparr>warning_sent := True, warning_sent_at := Some (w_now (s_warning env))\<rparr>])
       \<and> priority_score (last (save_message env args db))
           = calculate_priority_score (a_message_text args)
               (detect_mention (s_runtime env) (a_message_text args) (a_client_username args))
               (detect_question (s_runtime env) (a_message_text args))
               (a_user_id args \<in> s_high_priority_users env)
       \<and> message_text (last (save_message env args db)) = a_message_text args
       \<and> telegram_message_id (last (save_message env args db)) = a_telegram_message_id args"
proof -
  have none: "calculate_ai_priority_score (s_runtime env) (a_message_text args) (s_oracle env) = Inr None"
    using assms(2,3,4) by (rule ai_score_None)
  then have "score_message env args = Inr (priority_score (rule_based_row env args topic (fresh_id db)))"
    by (simp add: score_message_def Let_def rule_based_row_def)
  from save_message_rule_based [OF this assms(5,6)]
  have d: "save_message env args db = db @ [rule_based_row env args topic (fresh_id db)]
       \<or> save_message env args db =
           db @ [(rule_based_row env args topic (fresh_id db))
                   \<lparr>warning_sent := True, warning_sent_at := Some (w_now (s_warning env))\<rparr>]" .
  then have l: "priority_score (last (save_message env args db))
           = calculate_priority_score (a_message_text args)
               (detect_mention (s_runtime env) (a_message_text args) (a_client_username args))
               (detect_question (s_runtime env) (a_message_text args))
               (a_user_id args \<in> s_high_priority_users env)
       \<and> message_text (last (save_message env args db)) = a_message_text args
       \<and> telegram_message_id (last (save_message env args db)) = a_telegram_message_id args"
    by (auto simp: rule_based_row_def)
  from none d l show ?thesis by blast
qed

subsection \<open>Fail-open size filter\<close>





lemma group_type_title:
  "get_chat_type chat \<in> {Group, Supergroup, Gigagroup} \<Longrightarrow>
   (case chat of
      ChatEntity x title \<Rightarrow> Some title
    | ChannelEntity x title g m b \<Rightarrow> Some title
    | UserEntity x first_name last_name \<Rightarrow> Some (f first_name last_name)
    | OtherEntity x \<Rightarrow> None) = group_title chat"
  by (cases chat) auto





subsection \<open>Label action\<close>



lemma set_label_twice: "set_label mid lbl t2 (set_label mid lbl t1 db) = set_label mid lbl t2 db"
  by (induction db) (auto simp: set_label_def)

lemma set_label_same_time: "set_label mid lbl t (set_label mid lbl t db) = set_label mid lbl t db"
  by (rule set_label_twice)









subsection \<open>Mute action\<close>

lemma mute_cache_unchanged_without_transport:
  "\<not> m_transport_ok env \<Longrightarrow> fst (handle_mute_callback env data db cache) = cache"
  by (auto simp: handle_mute_callback_def Let_def split: option.splits edit_result.splits)

text \<open>
  C7, as the code has it. For every mute action with a known duration on a stored
  message: when the transport call fails, the handler returns the mute cache it was
  given (for any callback data), and the user is shown the transport error when the edit
  that carries it is accepted, the text of the outer handler when only that edit is
  accepted, and nothing when both edits raise; when the transport call succeeds, the
  mute cache the handler returns is the given one with the conversation identifier
  added, the group sizes untouched, so that the conversation is reported as muted at
  once.
\<close>

theorem mute_follows_transport:
  assumes "split_on 58 d = [action, mid_str, cid_str]"
    and "py_int (m_runtime env) mid_str = Some mid"
    and "py_int (m_runtime env) cid_str = Some cid"
    and "map_of duration_map action = Some duration"
    and "m_lookup env = DbOk"
    and "find (\<lambda>m. msg_id m = mid) db = Some message"
  shows "(\<not> m_transport_ok env \<longrightarrow>
            handle_mute_callback env (Some d) db cache =
              (cache, if m_reply_ok env then MuteTransportError
                      else if m_handler_reply_ok env then MuteProcessingError
                      else MuteNoReply))
       \<and> (\<not> m_transport_ok env \<longrightarrow> fst (handle_mute_callback env other_data db cache) = cache)
       \<and> (m_transport_ok env \<longrightarrow>
            muted_chats (fst (handle_mute_callback env (Some d) db cache))
              = insert cid (muted_chats cache)
            \<and> group_sizes (fst (handle_mute_callback env (Some d) db cache)) = group_sizes cache
            \<and> cid \<in> get_muted_chats (fst (handle_mute_callback env (Some d) db cache)))"
proof -
  have 1: "\<not> m_transport_ok env \<longrightarrow>
            handle_mute_callback env (Some d) db cache =
              (cache, if m_reply_ok env then MuteTransportError
                      else if m_handler_reply_ok env then MuteProcessingError
                      else MuteNoReply)"
    using assms
    by (cases duration)
       (auto simp: handle_mute_callback_def Let_def mute_error_reply_def mute_handler_reply_def)
  have 2: "\<not> m_transport_ok env \<longrightarrow> fst (handle_mute_callback env other_data db cache) = cache"
    by (simp add: mute_cache_unchanged_without_transport)
  have 3: "m_transport_ok env \<longrightarrow>
            muted_chats (fst (handle_mute_callback env (Some d) db cache))
              = insert cid (muted_chats cache)
            \<and> group_sizes (fst (handle_mute_callback env (Some d) db cache)) = group_sizes cache
            \<and> cid \<in> get_muted_chats (fst (handle_mute_callback env (Some d) db cache))"
    using assms
    by (cases duration)
       (auto simp: handle_mute_callback_def Let_def add_muted_chat_def get_muted_chats_def
             split: edit_result.splits)
  from 1 2 3 show ?thesis by (intro conjI)
qed

subsection \<open>Boundary of the two size checks\<close>





subsection \<open>Refresh sweeps\<close>





lemma group_never_emptied:
  "fst (refresh_group_sizes env cache) = cache \<or> group_sizes (fst (refresh_group_sizes env cache)) \<noteq> []"
  by (auto simp: refresh_group_sizes_def split: client_state.splits option.splits)

lemma group_installs:
  "gs_client env = ClientConnected \<Longrightarrow> group_sweep_loop (gs_dialogs env) [] [] = Some (s, l) \<Longrightarrow> s \<noteq> []
   \<Longrightarrow> fst (refresh_group_sizes env cache) = cache\<lparr>group_sizes := s\<rparr>"
  by (simp add: refresh_group_sizes_def)




subsection \<open>Evaluation on the sample data\<close>

lemma sample_select:
  "get_unlabeled_messages sample_digest_env 4 2 sample_db =
     Some (mark_included [4, 2] (13 * HOUR + 1) sample_db,
           map (marked (13 * HOUR + 1)) [sample_message 4 6 12 5, sample_message 2 5 11 5])"
  by (simp add: get_unlabeled_messages_def sample_digest_env_def sample_db_def sample_config_def
        sample_cache_def min_priority_of_def excluded_chat_ids_def get_muted_chats_def
        get_large_group_ids_def select_unlabeled_def digest_key_def sample_message_def HOUR_def
        mark_included_def marked_def Let_def)


lemmas sample_defs =
  sample_message_def sample_db_def sample_config_def sample_cache_def sample_digest_env_def
  sample_runtime_def sample_warning_env_def sample_save_env_def sample_args_def
  sample_label_env_def sample_mute_env_def sample_ingest_env_def sample_event_def
  ascii_digit_def ascii_def HOUR_def


subsection \<open>Evaluation of the ingestion properties\<close>

lemma sample_save_hyps:
  "cfg_ai_enabled (s_config sample_save_env)"
  "truthy (a_message_text sample_args)"
  "oracle_call_fails (s_runtime sample_save_env) (s_oracle sample_save_env)"
  "s_oracle sample_save_env \<noteq> OllamaImportRaises"
  "generate_topic_summary (a_message_text sample_args) (s_topic sample_save_env) = Inr None"
  "s_insert sample_save_env = DbOk"
  by (simp_all add: sample_save_env_def sample_config_def sample_args_def truthy_def ascii_def
        oracle_call_fails_def generate_topic_summary_def MIN_TEXT_LENGTH_FOR_TOPIC_def)

theorem oracle_failure_falls_back_witness:
  "cfg_ai_enabled (s_config sample_save_env)
   \<and> truthy (a_message_text sample_args)
   \<and> oracle_call_fails (s_runtime sample_save_env) (s_oracle sample_save_env)
   \<and> s_oracle sample_save_env \<noteq> OllamaImportRaises
   \<and> generate_topic_summary (a_message_text sample_args) (s_topic sample_save_env) = Inr None
   \<and> s_insert sample_save_env = DbOk
   \<and> calculate_ai_priority_score (s_runtime sample_save_env) (a_message_text sample_args)
        (s_oracle sample_save_env) = Inr None
   \<and> priority_score (last (save_message sample_save_env sample_args sample_db))
       = calculate_priority_score (a_message_text sample_args)
           (detect_mention (s_runtime sample_save_env) (a_message_text sample_args)
              (a_client_username sample_args))
           (detect_question (s_runtime sample_save_env) (a_message_text sample_args))
           (a_user_id sample_args \<in> s_high_priority_users sample_save_env)
   \<and> message_text (last (save_message sample_save_env sample_args sample_db))
       = a_message_text sample_args
   \<and> telegram_message_id (last (save_message sample_save_env sample_args sample_db))
       = a_telegram_message_id sample_args"
proof -
  note h = sample_save_hyps
  from oracle_failure_falls_back [OF h(1) h(2) h(3) h(4) h(5) h(6), of sample_db] h
  show ?thesis by (intro conjI) blast+
qed

text \<open>
  The case that C5 does not survive: \<open>import ollama\<close> raises an exception other than
  \<open>ImportError\<close>. The oracle function then raises \<open>UnboundLocalError\<close>, the handler of
  \<open>save_message\<close> logs it, and no row is stored for the message.
\<close>

theorem import_failure_stores_nothing:
  "cfg_ai_enabled (s_config (sample_save_env\<lparr>s_oracle := OllamaImportRaises\<rparr>))
   \<and> truthy (a_message_text sample_args)
   \<and> oracle_call_fails (s_runtime sample_save_env) OllamaImportRaises
   \<and> calculate_ai_priority_score (s_runtime sample_save_env) (a_message_text sample_args)
        OllamaImportRaises = Inl UnboundLocalError
   \<and> save_message (sample_save_env\<lparr>s_oracle := OllamaImportRaises\<rparr>) sample_args sample_db
       = sample_db"
proof -
  have a: "cfg_ai_enabled (s_config (sample_save_env\<lparr>s_oracle := OllamaImportRaises\<rparr>))"
    by (simp add: sample_save_env_def sample_config_def)
  have b: "s_oracle (sample_save_env\<lparr>s_oracle := OllamaImportRaises\<rparr>) = OllamaImportRaises"
    by simp
  have c: "oracle_call_fails (s_runtime sample_save_env) OllamaImportRaises"
    by (simp add: oracle_call_fails_def)
  from a sample_save_hyps(2) c ai_score_raises [OF sample_save_hyps(2)]
       save_message_raises [OF a sample_save_hyps(2) b]
  show ?thesis by (intro conjI)
qed






subsection \<open>Evaluation of the mute action\<close>

lemma sample_mute_data:
  "split_on 58 (ascii ''mute_1h:2:5'') = [ascii ''mute_1h'', ascii ''2'', ascii ''5'']"
  by (simp add: ascii_def)

lemma sample_py_int:
  "py_int sample_runtime (ascii ''2'') = Some 2"
  "py_int sample_runtime (ascii ''5'') = Some 5"
  by (simp_all add: sample_runtime_def ascii_def ascii_digit_def)

theorem mute_follows_transport_witness:
  "split_on 58 (ascii ''mute_1h:2:5'') = [ascii ''mute_1h'', ascii ''2'', ascii ''5'']
   \<and> py_int sample_runtime (ascii ''2'') = Some 2
   \<and> py_int sample_runtime (ascii ''5'') = Some 5
   \<and> map_of duration_map (ascii ''mute_1h'') = Some (Some (1 * HOUR), ascii ''1 hour'')
   \<and> find (\<lambda>m. msg_id m = 2) sample_db = Some (sample_message 2 5 11 5)
   \<and> handle_mute_callback (sample_mute_env False) (Some (ascii ''mute_1h:2:5'')) sample_db sample_cache
       = (sample_cache, MuteTransportError)
   \<and> fst (handle_mute_callback (sample_mute_env False) None sample_db sample_cache) = sample_cache
   \<and> muted_chats (fst (handle_mute_callback (sample_mute_env True) (Some (ascii ''mute_1h:2:5''))
                          sample_db sample_cache))
       = insert 5 (muted_chats sample_cache)
   \<and> group_sizes (fst (handle_mute_callback (sample_mute_env True) (Some (ascii ''mute_1h:2:5''))
                          sample_db sample_cache))
       = group_sizes sample_cache
   \<and> 5 \<in> get_muted_chats
           (fst (handle_mute_callback (sample_mute_env True) (Some (ascii ''mute_1h:2:5'')) sample_db
                   sample_cache))
   \<and> 5 \<notin> get_muted_chats sample_cache"
proof -
  have rt: "\<And>ok. m_runtime (sample_mute_env ok) = sample_runtime"
    by (simp add: sample_mute_env_def)
  have h2: "\<And>ok. py_int (m_runtime (sample_mute_env ok)) (ascii ''2'') = Some 2"
    by (simp only: rt sample_py_int)
  have h3: "\<And>ok. py_int (m_runtime (sample_mute_env ok)) (ascii ''5'') = Some 5"
    by (simp only: rt sample_py_int)
  have h4: "map_of duration_map (ascii ''mute_1h'') = Some (Some (1 * HOUR), ascii ''1 hour'')"
    by (simp add: duration_map_def ascii_def)
  have h5: "\<And>ok. m_lookup (sample_mute_env ok) = DbOk"
    by (simp add: sample_mute_env_def)
  have h6: "find (\<lambda>m. msg_id m = 2) sample_db = Some (sample_message 2 5 11 5)"
    by (simp add: sample_db_def sample_message_def)
  have t: "\<And>ok. m_transport_ok (sample_mute_env ok) = ok"
    "\<And>ok. m_reply_ok (sample_mute_env ok) = True"
    by (simp_all add: sample_mute_env_def)
  have c: "5 \<notin> get_muted_chats sample_cache"
    by (simp add: get_muted_chats_def sample_cache_def)
  note f = mute_follows_transport [OF sample_mute_data h2 h3 h4 h5 h6, of False sample_cache None,
             unfolded t]
  note g = mute_follows_transport [OF sample_mute_data h2 h3 h4 h5 h6, of True sample_cache None,
             unfolded t]
  from f have f1: "handle_mute_callback (sample_mute_env False) (Some (ascii ''mute_1h:2:5''))
                     sample_db sample_cache = (sample_cache, MuteTransportError)"
    and f2: "fst (handle_mute_callback (sample_mute_env False) None sample_db sample_cache)
               = sample_cache"
    by simp_all
  from g have g1: "muted_chats (fst (handle_mute_callback (sample_mute_env True)
                      (Some (ascii ''mute_1h:2:5'')) sample_db sample_cache))
       = insert 5 (muted_chats sample_cache)"
    and g2: "group_sizes (fst (handle_mute_callback (sample_mute_env True)
                      (Some (ascii ''mute_1h:2:5'')) sample_db sample_cache))
       = group_sizes sample_cache"
    and g3: "5 \<in> get_muted_chats
           (fst (handle_mute_callback (sample_mute_env True) (Some (ascii ''mute_1h:2:5'')) sample_db
                   sample_cache))"
    by simp_all
  from sample_mute_data sample_py_int h4 h6 f1 f2 g1 g2 g3 c show ?thesis by (intro conjI)
qed

text \<open>
  A failed transport call whose error cannot be shown: the edit of the error reply and
  the edit of the outer handler both raise. The cache is unchanged and the user is shown
  nothing.
\<close>

theorem mute_failure_unreported:
  "\<not> m_transport_ok ((sample_mute_env False)\<lparr>m_reply_ok := False, m_handler_reply_ok := False\<rparr>)
   \<and> handle_mute_callback
       ((sample_mute_env False)\<lparr>m_reply_ok := False, m_handler_reply_ok := False\<rparr>)
       (Some (ascii ''mute_1h:2:5'')) sample_db sample_cache
     = (sample_cache, MuteNoReply)"
proof -
  let ?env = "(sample_mute_env False)\<lparr>m_reply_ok := False, m_handler_reply_ok := False\<rparr>"
  have e: "m_runtime ?env = sample_runtime" "m_lookup ?env = DbOk" "\<not> m_transport_ok ?env"
    "\<not> m_reply_ok ?env" "\<not> m_handler_reply_ok ?env"
    by (simp_all add: sample_mute_env_def)
  have h4: "map_of duration_map (ascii ''mute_1h'') = Some (Some (1 * HOUR), ascii ''1 hour'')"
    by (simp add: duration_map_def ascii_def)
  have h6: "find (\<lambda>m. msg_id m = 2) sample_db = Some (sample_message 2 5 11 5)"
    by (simp add: sample_db_def sample_message_def)
  show ?thesis
    unfolding handle_mute_callback_def Let_def option.case sample_mute_data
    by (simp add: e sample_py_int h4 h6 mute_error_reply_def mute_handler_reply_def)
qed

subsection \<open>Evaluation of a run\<close>

lemma sample_trace_1:
  "trace sample_ops sample_db ! 1 = mark_included [4, 2] (13 * HOUR + 1) sample_db"
  unfolding sample_ops_def trace.simps apply_op.simps sample_select by simp

theorem tracking_flags_monotone_witness:
  "(0::nat) \<le> 2
   \<and> 2 \<le> length sample_ops
   \<and> 1 < length (trace sample_ops sample_db ! 0)
   \<and> msg_id (trace sample_ops sample_db ! 2 ! 1) = msg_id (sample_db ! 1)
   \<and> flips (map (\<lambda>d. included_in_summary (d ! 1)) (trace sample_ops sample_db)) \<le> 1
   \<and> flips (map (\<lambda>d. warning_sent (d ! 1)) (trace sample_ops sample_db)) \<le> 1
   \<and> \<not> included_in_summary (trace sample_ops sample_db ! 0 ! 1)
   \<and> included_in_summary (trace sample_ops sample_db ! 1 ! 1)
   \<and> included_in_summary (trace sample_ops sample_db ! 2 ! 1)"
proof -
  have len: "2 \<le> length sample_ops" by (simp add: sample_ops_def)
  have t0: "trace sample_ops sample_db ! 0 = sample_db"
    unfolding sample_ops_def trace.simps by simp
  have h: "1 < length (trace sample_ops sample_db ! 0)"
    unfolding t0 by (simp add: sample_db_def)
  have h1: "1 < length (trace sample_ops sample_db ! 1)"
    unfolding sample_trace_1 by (simp add: mark_included_def sample_db_def)
  have le02: "(0::nat) \<le> 2" and le12: "(1::nat) \<le> 2" by simp_all
  note t02 = tracking_flags_monotone [OF le02 len h]
  note t12 = tracking_flags_monotone [OF le12 len h1]
  have a: "\<not> included_in_summary (trace sample_ops sample_db ! 0 ! 1)"
    unfolding t0 by (simp add: sample_db_def sample_message_def)
  have b: "included_in_summary (trace sample_ops sample_db ! 1 ! 1)"
    unfolding sample_trace_1 by (simp add: mark_included_def sample_db_def sample_message_def)
  have c: "included_in_summary (trace sample_ops sample_db ! 2 ! 1)"
    using t12 b by blast
  have d: "msg_id (trace sample_ops sample_db ! 2 ! 1) = msg_id (sample_db ! 1)"
    using t02 unfolding t0 by blast
  have e: "flips (map (\<lambda>d. included_in_summary (d ! 1)) (trace sample_ops sample_db)) \<le> 1"
    "flips (map (\<lambda>d. warning_sent (d ! 1)) (trace sample_ops sample_db)) \<le> 1"
    using t02 unfolding drop_0 by blast+
  from le02 len h d e a b c show ?thesis by (intro conjI)
qed

subsection \<open>Evaluation of the label action\<close>







subsection \<open>Refresh sweeps as a whole\<close>









end
